theory Spec2Isabelle
  imports Main
begin

text \<open>
  This theory embeds the GitHub strategy of \<^verbatim>\<open>src/config/strategies\<close>: the guard that
  constructs it and its verify callback, the handler of one handshake. The token helper
  of \<^verbatim>\<open>src/helpers/jwtHelper.ts\<close> has no logic of its own to embed: its two functions
  pass their arguments to \<^verbatim>\<open>jwt.sign\<close> and \<^verbatim>\<open>jwt.verify\<close> of the jsonwebtoken
  package and return what those return.
\<close>

section \<open>JavaScript values used by the GitHub strategy\<close>

text \<open>
  The handler of \<^verbatim>\<open>github.strategy.template.ts\<close> works on optional strings: a field
  of the profile, of the configuration or of a user document is either \<^verbatim>\<open>undefined\<close>
  (here \<open>None\<close>) or a string. JavaScript's \<^verbatim>\<open>!v\<close>, \<^verbatim>\<open>if (v)\<close> and \<^verbatim>\<open>a || b\<close> test
  truthiness: \<^verbatim>\<open>undefined\<close>, \<^verbatim>\<open>null\<close> and the empty string are falsy, every other
  string is truthy.
\<close>

definition truthy :: "string option \<Rightarrow> bool" where
  "truthy v = (case v of None \<Rightarrow> False | Some s \<Rightarrow> s \<noteq> [])"

text \<open>\<^verbatim>\<open>a || b\<close>: the left operand when it is truthy, the right operand otherwise.\<close>

definition js_or :: "string option \<Rightarrow> string option \<Rightarrow> string option" where
  "js_or a b = (if truthy a then a else b)"

text \<open>\<^verbatim>\<open>a || 'literal'\<close>, whose value is always a string.\<close>

definition js_or_lit :: "string option \<Rightarrow> string \<Rightarrow> string" where
  "js_or_lit a d = (case a of None \<Rightarrow> d | Some s \<Rightarrow> if s \<noteq> [] then s else d)"

text \<open>
  \<^verbatim>\<open>s.split(sep)\<close> for a separator of one character: the pieces of \<open>s\<close> between the
  occurrences of \<open>sep\<close>, empty pieces included; the empty string gives one empty piece.
\<close>

fun js_split :: "char \<Rightarrow> string \<Rightarrow> string list" where
  "js_split sep [] = [[]]"
| "js_split sep (c # cs) =
     (if c = sep then [] # js_split sep cs
      else (case js_split sep cs of
              [] \<Rightarrow> [[c]]
            | w # ws \<Rightarrow> (c # w) # ws))"

text \<open>\<^verbatim>\<open>xs[0]\<close>: \<^verbatim>\<open>undefined\<close> on an empty array.\<close>

definition js_index0 :: "'a list \<Rightarrow> 'a option" where
  "js_index0 xs = (case xs of [] \<Rightarrow> None | x # _ \<Rightarrow> Some x)"

text \<open>\<^verbatim>\<open>xs.slice(1)\<close>: the array without its first element, empty when \<open>xs\<close> is.\<close>

definition js_slice1 :: "'a list \<Rightarrow> 'a list" where
  "js_slice1 xs = drop 1 xs"

text \<open>\<^verbatim>\<open>xs.join(sep)\<close> for a separator of one character.\<close>

fun js_join :: "char \<Rightarrow> string list \<Rightarrow> string" where
  "js_join sep [] = []"
| "js_join sep [w] = w"
| "js_join sep (w # v # ws) = w @ sep # js_join sep (v # ws)"

text \<open>
  \<^verbatim>\<open>String(id)\<close>: passport types \<^verbatim>\<open>Profile.id\<close> as a string, and the string of a string
  is that string.
\<close>

definition String_of :: "string \<Rightarrow> string" where
  "String_of s = s"

section \<open>Data model\<close>

text \<open>
  The configuration block \<^verbatim>\<open>config.oauth.github\<close>. The block itself may be missing,
  and so may each of its fields.
\<close>

record github_config =
  clientID :: "string option"
  clientSecret :: "string option"
  callbackURL :: "string option"

text \<open>
  The strategy object: \<^verbatim>\<open>new GitHubStrategy({clientID, clientSecret, callbackURL}, verify)\<close>
  keeps the three options it was given.
\<close>

datatype strategy = GitHubStrategy "string option" "string option" "string option"

text \<open>
  The profile passport hands to the verify callback. \<open>emails\<close> and \<open>photos\<close> are
  optional arrays of \<^verbatim>\<open>{value}\<close> objects, kept here as the list of their \<open>value\<close>s;
  \<open>profile_email\<close>, \<open>login\<close>, \<open>avatarUrl\<close> and \<open>profile_location\<close> are the fields read
  through \<^verbatim>\<open>(profile as any)\<close>.
\<close>

record profile =
  profile_id :: string
  displayName :: "string option"
  emails :: "string list option"
  photos :: "string list option"
  profile_email :: "string option"
  login :: "string option"
  avatarUrl :: "string option"
  profile_location :: "string option"

text \<open>
  A user document. The handler reads and writes the fields below; whatever else the
  \<^verbatim>\<open>User\<close> model stores in a document is the record's extension.
\<close>

record user =
  email :: string
  name :: string
  firstName :: string
  lastName :: string
  avatar :: "string option"
  provider :: "string option"
  providerId :: "string option"
  verified :: bool
  status :: string
  contact :: string
  location :: string
  password :: "string option"

text \<open>A thrown value: \<^verbatim>\<open>new Error(message)\<close>.\<close>

datatype error = Error string

text \<open>
  The two forms of the continuation's call: \<^verbatim>\<open>done(error)\<close> and
  \<^verbatim>\<open>done(null, user)\<close>.
\<close>

datatype 'd done_args = Failure error | Success 'd

text \<open>What the handler does to its collaborators, in the order it does it.\<close>

datatype 'd event =
    FindOne string
  | Create user
  | Save 'd
  | Done "'d done_args"

text \<open>
  The collaborators of one handshake. The \<^verbatim>\<open>User\<close> model and the continuation are
  not part of the strategy's file, so the handler takes their answers as parameters:
  \<^item> \<open>findOne e\<close> is the answer of \<^verbatim>\<open>await User.findOne({ email })\<close>: an exception
    (\<open>Inl\<close>), no document (\<open>Inr None\<close>) or a document;
  \<^item> \<open>create f\<close> is the answer of \<^verbatim>\<open>await User.create(f)\<close>: an exception or the new
    document;
  \<^item> \<open>save u\<close> is the answer of \<^verbatim>\<open>await user.save()\<close> on the document \<open>u\<close>: an
    exception or nothing;
  \<^item> \<open>done_call k a\<close> is what the continuation does when it is invoked with \<open>a\<close>
    after \<open>k\<close> earlier invocations: it returns (\<open>None\<close>) or throws.
\<close>

record 'd world =
  findOne :: "string \<Rightarrow> error + 'd option"
  create :: "user \<Rightarrow> error + 'd"
  save :: "'d \<Rightarrow> error option"
  done_call :: "nat \<Rightarrow> 'd done_args \<Rightarrow> error option"

section \<open>The strategy\<close>

text \<open>
  \<^verbatim>\<open>let githubStrategy = null; if (config.oauth.github && clientID && clientSecret)
  githubStrategy = new GitHubStrategy({...}, verify)\<close>.
\<close>

definition githubStrategy :: "github_config option \<Rightarrow> strategy option" where
  "githubStrategy cfg =
     (case cfg of
        None \<Rightarrow> None
      | Some g \<Rightarrow>
          if truthy (clientID g) \<and> truthy (clientSecret g)
          then Some (GitHubStrategy (clientID g) (clientSecret g) (callbackURL g))
          else None)"

text \<open>\<^verbatim>\<open>xs?.[0]?.value\<close> on an optional array of \<^verbatim>\<open>{value}\<close> objects.\<close>

definition first_value :: "string list option \<Rightarrow> string option" where
  "first_value xs = (case xs of None \<Rightarrow> None | Some vs \<Rightarrow> js_index0 vs)"

text \<open>\<^verbatim>\<open>const email = emails?.[0]?.value || (profile as any).email\<close>.\<close>

definition resolve_email :: "profile \<Rightarrow> string option" where
  "resolve_email p = js_or (first_value (emails p)) (profile_email p)"

text \<open>\<^verbatim>\<open>displayName || (profile as any).login || 'User'\<close>.\<close>

definition name_of :: "profile \<Rightarrow> string" where
  "name_of p = js_or_lit (js_or (displayName p) (login p)) ''User''"

text \<open>\<^verbatim>\<open>displayName?.split(' ')[0] || 'User'\<close>.\<close>

definition firstName_of :: "string option \<Rightarrow> string" where
  "firstName_of d =
     js_or_lit (case d of None \<Rightarrow> None | Some s \<Rightarrow> js_index0 (js_split CHR '' '' s)) ''User''"

text \<open>\<^verbatim>\<open>displayName?.split(' ').slice(1).join(' ') || ''\<close>.\<close>

definition lastName_of :: "string option \<Rightarrow> string" where
  "lastName_of d =
     js_or_lit
       (case d of
          None \<Rightarrow> None
        | Some s \<Rightarrow> Some (js_join CHR '' '' (js_slice1 (js_split CHR '' '' s))))
       []"

text \<open>\<^verbatim>\<open>photos?.[0]?.value || (profile as any).avatarUrl\<close>.\<close>

definition avatar_of :: "profile \<Rightarrow> string option" where
  "avatar_of p = js_or (first_value (photos p)) (avatarUrl p)"

text \<open>The object literal passed to \<^verbatim>\<open>User.create\<close>.\<close>

definition create_fields :: "profile \<Rightarrow> string \<Rightarrow> user" where
  "create_fields p e =
     \<lparr> email = e,
       name = name_of p,
       firstName = firstName_of (displayName p),
       lastName = lastName_of (displayName p),
       avatar = avatar_of p,
       provider = Some ''github'',
       providerId = Some (String_of (profile_id p)),
       verified = True,
       status = ''active'',
       contact = [],
       location = js_or_lit (profile_location p) [],
       password = None \<rparr>"

text \<open>
  The assignments made to an existing document that has no \<open>providerId\<close>, before
  \<^verbatim>\<open>user.save()\<close>.
\<close>

definition backfill :: "profile \<Rightarrow> 'z user_scheme \<Rightarrow> 'z user_scheme" where
  "backfill p u =
     (let u1 = u\<lparr>provider := Some ''github''\<rparr>;
          u2 = u1\<lparr>providerId := Some (String_of (profile_id p))\<rparr>
      in if \<not> truthy (avatar u2) \<and> truthy (avatar_of p)
         then u2\<lparr>avatar := avatar_of p\<rparr>
         else u2)"

text \<open>
  The body of the \<^verbatim>\<open>try\<close> block: the events it causes and the exception that leaves
  it, if any. Every \<^verbatim>\<open>return done(...)\<close> of the block is a call inside the block, so an
  exception of the continuation leaves the block as one of \<^verbatim>\<open>findOne\<close> does.
\<close>

definition try_block ::
  "('z user_scheme) world \<Rightarrow> profile \<Rightarrow> ('z user_scheme) event list \<times> error option" where
  "try_block w p =
     (let email = resolve_email p in
      if \<not> truthy email then
        (let a = Failure (Error ''No email provided by GitHub'')
         in ([Done a], done_call w 0 a))
      else
        (let e = the email in
         case findOne w e of
           Inl x \<Rightarrow> ([FindOne e], Some x)
         | Inr None \<Rightarrow>
             (case create w (create_fields p e) of
                Inl x \<Rightarrow> ([FindOne e, Create (create_fields p e)], Some x)
              | Inr u \<Rightarrow>
                  ([FindOne e, Create (create_fields p e), Done (Success u)],
                   done_call w 0 (Success u)))
         | Inr (Some u) \<Rightarrow>
             if \<not> truthy (providerId u) then
               (case save w (backfill p u) of
                  Some x \<Rightarrow> ([FindOne e, Save (backfill p u)], Some x)
                | None \<Rightarrow>
                    ([FindOne e, Save (backfill p u), Done (Success (backfill p u))],
                     done_call w 0 (Success (backfill p u))))
             else ([FindOne e, Done (Success u)], done_call w 0 (Success u))))"

text \<open>The invocations of the continuation among the events, in order.\<close>

definition dones :: "'d event list \<Rightarrow> 'd done_args list" where
  "dones evs = concat (map (\<lambda>ev. case ev of Done a \<Rightarrow> [a] | _ \<Rightarrow> []) evs)"

text \<open>The objects passed to \<^verbatim>\<open>User.create\<close>, and the documents saved.\<close>

definition creates :: "'d event list \<Rightarrow> user list" where
  "creates evs = concat (map (\<lambda>ev. case ev of Create f \<Rightarrow> [f] | _ \<Rightarrow> []) evs)"

definition saves :: "'d event list \<Rightarrow> 'd list" where
  "saves evs = concat (map (\<lambda>ev. case ev of Save u \<Rightarrow> [u] | _ \<Rightarrow> []) evs)"

definition lookups :: "'d event list \<Rightarrow> string list" where
  "lookups evs = concat (map (\<lambda>ev. case ev of FindOne e \<Rightarrow> [e] | _ \<Rightarrow> []) evs)"

text \<open>
  The verify callback: the \<^verbatim>\<open>try\<close> block, and \<^verbatim>\<open>catch (error) { return done(error) }\<close>
  for an exception that leaves it. The result is the events of the handshake and the
  exception with which the asynchronous callback fails, if any.
\<close>

definition verify ::
  "('z user_scheme) world \<Rightarrow> profile \<Rightarrow> ('z user_scheme) event list \<times> error option" where
  "verify w p =
     (case try_block w p of
        (evs, None) \<Rightarrow> (evs, None)
      | (evs, Some x) \<Rightarrow>
          (evs @ [Done (Failure x)], done_call w (length (dones evs)) (Failure x)))"

section \<open>The specification's wording of the name fields\<close>

text \<open>
  The specification describes \<open>firstName\<close> as the first whitespace-delimited token of
  the display name and \<open>lastName\<close> as the remaining tokens joined by a space. The
  definitions of this section follow those words, to be compared with \<open>firstName_of\<close>
  and \<open>lastName_of\<close>, which follow the code: a token is a maximal run of characters
  that are not whitespace.
\<close>

definition spec_is_whitespace :: "char \<Rightarrow> bool" where
  "spec_is_whitespace c =
     (c = CHR '' '' \<or> c = CHR 0x09 \<or> c = CHR 0x0A \<or> c = CHR 0x0B \<or> c = CHR 0x0C
      \<or> c = CHR 0x0D)"

fun spec_tokens_from :: "string \<Rightarrow> string \<Rightarrow> string list" where
  "spec_tokens_from cur [] = (if cur = [] then [] else [cur])"
| "spec_tokens_from cur (c # cs) =
     (if spec_is_whitespace c
      then (if cur = [] then spec_tokens_from [] cs else cur # spec_tokens_from [] cs)
      else spec_tokens_from (cur @ [c]) cs)"

definition spec_tokens :: "string \<Rightarrow> string list" where
  "spec_tokens s = spec_tokens_from [] s"

definition spec_firstName :: "string option \<Rightarrow> string" where
  "spec_firstName d =
     (case d of
        None \<Rightarrow> ''User''
      | Some s \<Rightarrow> (case spec_tokens s of [] \<Rightarrow> ''User'' | t # ts \<Rightarrow> t))"

definition spec_lastName :: "string option \<Rightarrow> string" where
  "spec_lastName d =
     (case d of
        None \<Rightarrow> []
      | Some s \<Rightarrow> (case spec_tokens s of [] \<Rightarrow> [] | t # ts \<Rightarrow> js_join CHR '' '' ts))"

section \<open>Concrete handshakes\<close>

text \<open>
  An in-memory \<^verbatim>\<open>User\<close> model over a list of documents, every operation of which
  succeeds, and a continuation that always returns: the collaborators of the examples
  below.
\<close>

definition store_world :: "user list \<Rightarrow> user world" where
  "store_world db =
     \<lparr> findOne = (\<lambda>e. Inr (find (\<lambda>u. email u = e) db)),
       create = (\<lambda>f. Inr f),
       save = (\<lambda>u. None),
       done_call = (\<lambda>k a. None) \<rparr>"

definition ada :: profile where
  "ada =
     \<lparr> profile_id = ''583231'',
       displayName = Some ''Ada Lovelace'',
       emails = Some [''ada@example.org''],
       photos = Some [''https://img.example.org/ada.png''],
       profile_email = None,
       login = Some ''ada99'',
       avatarUrl = None,
       profile_location = None \<rparr>"

text \<open>A profile without a display name, whose email comes from the flat field.\<close>

definition ada99 :: profile where
  "ada99 =
     \<lparr> profile_id = ''583231'',
       displayName = None,
       emails = None,
       photos = None,
       profile_email = Some ''ada99@example.org'',
       login = Some ''ada99'',
       avatarUrl = Some ''https://img.example.org/ada99.png'',
       profile_location = Some ''London'' \<rparr>"

text \<open>A profile with an empty \<open>emails\<close> array and no flat email field.\<close>

definition no_email_profile :: profile where
  "no_email_profile =
     \<lparr> profile_id = ''583231'',
       displayName = Some ''Ada Lovelace'',
       emails = Some [],
       photos = None,
       profile_email = None,
       login = Some ''ada99'',
       avatarUrl = None,
       profile_location = None \<rparr>"

text \<open>A display name whose two words are separated by a tab.\<close>

definition tabbed_name :: string where
  "tabbed_name = ''Ada'' @ [CHR 0x09] @ ''Lovelace''"

text \<open>
  A document registered with a password, never linked to GitHub, and the same
  document once linked.
\<close>

definition ada_unlinked :: user where
  "ada_unlinked =
     \<lparr> email = ''ada@example.org'', name = ''Ada'', firstName = ''Ada'', lastName = ''L'',
       avatar = None, provider = None, providerId = None, verified = False,
       status = ''active'', contact = ''555'', location = ''London'',
       password = Some ''hash'' \<rparr>"

definition ada_linked :: user where
  "ada_linked = ada_unlinked\<lparr>provider := Some ''github'', providerId := Some ''583231''\<rparr>"

text \<open>A configuration with the three credentials.\<close>

definition full_config :: github_config where
  "full_config =
     \<lparr> clientID = Some ''Iv1.8a61f9b3a7aba766'',
       clientSecret = Some ''s3cr3t'',
       callbackURL = Some ''http://localhost:5000/api/v1/oauth/github/callback'' \<rparr>"





text \<open>
  A continuation whose success path throws (a login step that fails synchronously),
  over a store that holds the linked document.
\<close>

definition throwing_world :: "user world" where
  "throwing_world =
     (store_world [ada_linked])
       \<lparr>done_call :=
          (\<lambda>k a. case a of
                    Failure x \<Rightarrow> None
                  | Success u \<Rightarrow> Some (Error ''req.session.regenerate is not a function''))\<rparr>"

section \<open>The paths of the handler\<close>

lemma try_block_no_email:
  "\<not> truthy (resolve_email p) \<Longrightarrow>
   try_block w p = ([Done (Failure (Error ''No email provided by GitHub''))],
                    done_call w 0 (Failure (Error ''No email provided by GitHub'')))"
  by (simp add: try_block_def Let_def)

lemma try_block_lookup_throws:
  "resolve_email p = Some e \<Longrightarrow> e \<noteq> [] \<Longrightarrow> findOne w e = Inl x \<Longrightarrow>
   try_block w p = ([FindOne e], Some x)"
  by (simp add: try_block_def Let_def truthy_def)

lemma try_block_create_throws:
  "resolve_email p = Some e \<Longrightarrow> e \<noteq> [] \<Longrightarrow> findOne w e = Inr None \<Longrightarrow>
   create w (create_fields p e) = Inl x \<Longrightarrow>
   try_block w p = ([FindOne e, Create (create_fields p e)], Some x)"
  by (simp add: try_block_def Let_def truthy_def)

lemma try_block_created:
  "resolve_email p = Some e \<Longrightarrow> e \<noteq> [] \<Longrightarrow> findOne w e = Inr None \<Longrightarrow>
   create w (create_fields p e) = Inr u \<Longrightarrow>
   try_block w p = ([FindOne e, Create (create_fields p e), Done (Success u)],
                    done_call w 0 (Success u))"
  by (simp add: try_block_def Let_def truthy_def)

lemma try_block_save_throws:
  "resolve_email p = Some e \<Longrightarrow> e \<noteq> [] \<Longrightarrow> findOne w e = Inr (Some u) \<Longrightarrow>
   \<not> truthy (providerId u) \<Longrightarrow> save w (backfill p u) = Some x \<Longrightarrow>
   try_block w p = ([FindOne e, Save (backfill p u)], Some x)"
  by (simp add: try_block_def Let_def truthy_def)

lemma try_block_saved:
  "resolve_email p = Some e \<Longrightarrow> e \<noteq> [] \<Longrightarrow> findOne w e = Inr (Some u) \<Longrightarrow>
   \<not> truthy (providerId u) \<Longrightarrow> save w (backfill p u) = None \<Longrightarrow>
   try_block w p = ([FindOne e, Save (backfill p u), Done (Success (backfill p u))],
                    done_call w 0 (Success (backfill p u)))"
  by (simp add: try_block_def Let_def truthy_def)

lemma try_block_linked:
  "resolve_email p = Some e \<Longrightarrow> e \<noteq> [] \<Longrightarrow> findOne w e = Inr (Some u) \<Longrightarrow>
   truthy (providerId u) \<Longrightarrow>
   try_block w p = ([FindOne e, Done (Success u)], done_call w 0 (Success u))"
  by (simp add: try_block_def Let_def truthy_def)

lemma dones_simps:
  "dones [] = []"
  "dones (Done a # evs) = a # dones evs"
  "dones (FindOne e # evs) = dones evs"
  "dones (Create f # evs) = dones evs"
  "dones (Save u # evs) = dones evs"
  "dones (evs @ evs') = dones evs @ dones evs'"
  by (simp_all add: dones_def)

lemma creates_simps:
  "creates [] = []"
  "creates (Done a # evs) = creates evs"
  "creates (FindOne e # evs) = creates evs"
  "creates (Create f # evs) = f # creates evs"
  "creates (Save u # evs) = creates evs"
  "creates (evs @ evs') = creates evs @ creates evs'"
  by (simp_all add: creates_def)

lemma saves_simps:
  "saves [] = []"
  "saves (Done a # evs) = saves evs"
  "saves (FindOne e # evs) = saves evs"
  "saves (Create f # evs) = saves evs"
  "saves (Save u # evs) = u # saves evs"
  "saves (evs @ evs') = saves evs @ saves evs'"
  by (simp_all add: saves_def)

lemma lookups_simps:
  "lookups [] = []"
  "lookups (Done a # evs) = lookups evs"
  "lookups (FindOne e # evs) = e # lookups evs"
  "lookups (Create f # evs) = lookups evs"
  "lookups (Save u # evs) = lookups evs"
  "lookups (evs @ evs') = lookups evs @ lookups evs'"
  by (simp_all add: lookups_def)

lemma verify_events:
  "fst (verify w p) =
     fst (try_block w p) @
     (case snd (try_block w p) of None \<Rightarrow> [] | Some x \<Rightarrow> [Done (Failure x)])"
  by (cases "try_block w p") (auto simp: verify_def split: option.splits)

lemma verify_outcome:
  "snd (verify w p) =
     (case snd (try_block w p) of
        None \<Rightarrow> None
      | Some x \<Rightarrow> done_call w (length (dones (fst (try_block w p)))) (Failure x))"
  by (cases "try_block w p") (auto simp: verify_def split: option.splits)

lemma resolve_email_ada: "resolve_email ada = Some ''ada@example.org''"
  by (simp add: resolve_email_def ada_def js_or_def first_value_def js_index0_def truthy_def)

lemma resolve_email_ada99: "resolve_email ada99 = Some ''ada99@example.org''"
  by (simp add: resolve_email_def ada99_def js_or_def first_value_def truthy_def)

lemma verify_throwing_world:
  "verify throwing_world ada
     = ([FindOne ''ada@example.org'', Done (Success ada_linked),
         Done (Failure (Error ''req.session.regenerate is not a function''))],
        None)"
  by (simp add: verify_def try_block_def Let_def resolve_email_def js_or_def first_value_def
      js_index0_def truthy_def ada_def throwing_world_def ada_linked_def ada_unlinked_def
      store_world_def dones_def)

section \<open>Splitting and joining\<close>

lemma js_split_nonempty: "js_split sep s \<noteq> []"
  by (induction s) (auto split: list.splits)

lemma js_index0_split: "js_index0 (js_split sep s) = Some (takeWhile (\<lambda>c. c \<noteq> sep) s)"
  by (induction s) (auto simp: js_index0_def split: list.splits)

lemma js_join_Cons_Cons: "js_join sep ((c # w) # ws) = c # js_join sep (w # ws)"
  by (cases ws) simp_all

text \<open>Joining the pieces of a string with the separator it was split on gives it back.\<close>

lemma js_join_split: "js_join sep (js_split sep s) = s"
proof (induction s)
  case Nil
  show ?case by simp
next
  case (Cons c cs)
  obtain w ws where split_cs: "js_split sep cs = w # ws"
    using js_split_nonempty [of sep cs] by (cases "js_split sep cs") auto
  show ?case
  proof (cases "c = sep")
    case True
    then show ?thesis using Cons.IH split_cs by simp
  next
    case False
    then show ?thesis using Cons.IH split_cs by (simp add: js_join_Cons_Cons)
  qed
qed

text \<open>So \<^verbatim>\<open>s.split(sep).slice(1).join(sep)\<close> is what follows the first separator.\<close>

lemma js_join_slice1_split:
  "js_join sep (js_slice1 (js_split sep s)) = drop 1 (dropWhile (\<lambda>c. c \<noteq> sep) s)"
proof (induction s)
  case Nil
  show ?case by (simp add: js_slice1_def)
next
  case (Cons c cs)
  obtain w ws where split_cs: "js_split sep cs = w # ws"
    using js_split_nonempty [of sep cs] by (cases "js_split sep cs") auto
  show ?case
  proof (cases "c = sep")
    case True
    then show ?thesis by (simp add: js_slice1_def js_join_split)
  next
    case False
    then show ?thesis using Cons.IH split_cs by (simp add: js_slice1_def)
  qed
qed

lemma firstName_of_eq:
  "firstName_of d =
     (case d of
        None \<Rightarrow> ''User''
      | Some s \<Rightarrow>
          if takeWhile (\<lambda>c. c \<noteq> CHR '' '') s = [] then ''User''
          else takeWhile (\<lambda>c. c \<noteq> CHR '' '') s)"
  by (simp add: firstName_of_def js_or_lit_def js_index0_split split: option.splits)

lemma lastName_of_eq:
  "lastName_of d =
     (case d of None \<Rightarrow> [] | Some s \<Rightarrow> drop 1 (dropWhile (\<lambda>c. c \<noteq> CHR '' '') s))"
  by (simp add: lastName_of_def js_or_lit_def js_join_slice1_split split: option.splits)

lemma name_of_eq:
  "name_of p =
     (if truthy (displayName p) then the (displayName p)
      else if truthy (login p) then the (login p)
      else ''User'')"
  by (auto simp: name_of_def js_or_lit_def js_or_def truthy_def split: option.splits)

lemma no_email_unresolved:
  "emails p = None \<or> emails p = Some [] \<Longrightarrow> profile_email p = None \<Longrightarrow>
   \<not> truthy (resolve_email p)"
  by (auto simp: resolve_email_def js_or_def first_value_def js_index0_def truthy_def)

section \<open>What the backfill changes\<close>

lemma backfill_provider:
  "provider (backfill p u) = Some ''github''
   \<and> providerId (backfill p u) = Some (String_of (profile_id p))"
  by (simp add: backfill_def Let_def)

lemma backfill_avatar:
  "avatar (backfill p u)
     = (if \<not> truthy (avatar u) \<and> truthy (avatar_of p) then avatar_of p else avatar u)"
  by (simp add: backfill_def Let_def)

lemma backfill_avatar_cases:
  "(truthy (avatar u) \<longrightarrow> avatar (backfill p u) = avatar u)
   \<and> (avatar (backfill p u) \<noteq> avatar u \<longrightarrow>
        \<not> truthy (avatar u) \<and> avatar (backfill p u) = avatar_of p)
   \<and> (\<not> truthy (avatar u) \<and> truthy (avatar_of p) \<longrightarrow>
        avatar (backfill p u) = avatar_of p)"
  unfolding backfill_avatar by (cases "truthy (avatar u)"; cases "truthy (avatar_of p)"; simp)

lemma backfill_frame:
  "email (backfill p u) = email u
   \<and> name (backfill p u) = name u
   \<and> firstName (backfill p u) = firstName u
   \<and> lastName (backfill p u) = lastName u
   \<and> verified (backfill p u) = verified u
   \<and> status (backfill p u) = status u
   \<and> contact (backfill p u) = contact u
   \<and> location (backfill p u) = location u
   \<and> password (backfill p u) = password u
   \<and> user.more (backfill p u) = user.more u"
  by (simp add: backfill_def Let_def)

section \<open>Creation on the first handshake\<close>

text \<open>
  Claim C2. When the profile resolves to a non-empty email \<open>e\<close> (from \<open>emails[0]\<close> or
  from the flat email field) and the lookup finds no document for \<open>e\<close>, the handler
  calls \<^verbatim>\<open>User.create\<close> exactly once and saves nothing; the object it creates has
  email \<open>e\<close>, \<open>password = null\<close>, \<open>verified = true\<close> and \<open>provider = 'github'\<close>; and
  when the creation succeeds the continuation's first call is \<^verbatim>\<open>done(null, user)\<close> with
  the created document.
\<close>

theorem first_handshake_creates_one_user:
  assumes "resolve_email p = Some e" and "e \<noteq> []" and "findOne w e = Inr None"
  shows "creates (fst (verify w p)) = [create_fields p e]
       \<and> saves (fst (verify w p)) = []
       \<and> lookups (fst (verify w p)) = [e]
       \<and> email (create_fields p e) = e
       \<and> password (create_fields p e) = None
       \<and> verified (create_fields p e) = True
       \<and> provider (create_fields p e) = Some ''github''
       \<and> (\<forall>u. create w (create_fields p e) = Inr u \<longrightarrow>
             hd (dones (fst (verify w p))) = Success u)"
proof (cases "create w (create_fields p e)")
  case (Inl x)
  then show ?thesis
    using assms
    by (simp add: verify_events try_block_create_throws creates_simps saves_simps lookups_simps
        create_fields_def)
next
  case (Inr u)
  then show ?thesis
    using assms
    by (simp add: verify_events try_block_created creates_simps saves_simps lookups_simps
        dones_simps create_fields_def split: option.splits)
qed

theorem first_handshake_creates_one_user_witness:
  "creates (fst (verify (store_world []) ada)) = [create_fields ada ''ada@example.org'']
   \<and> saves (fst (verify (store_world []) ada)) = []
   \<and> password (create_fields ada ''ada@example.org'') = None
   \<and> verified (create_fields ada ''ada@example.org'') = True
   \<and> provider (create_fields ada ''ada@example.org'') = Some ''github''
   \<and> hd (dones (fst (verify (store_world []) ada)))
       = Success (create_fields ada ''ada@example.org'')
   \<and> creates (fst (verify (store_world [ada_linked]) ada99))
       = [create_fields ada99 ''ada99@example.org'']
   \<and> saves (fst (verify (store_world [ada_linked]) ada99)) = []"
proof -
  have n: "''ada@example.org'' \<noteq> []" by simp
  have f: "findOne (store_world []) ''ada@example.org'' = Inr None"
    by (simp add: store_world_def)
  have c: "create (store_world []) (create_fields ada ''ada@example.org'')
           = Inr (create_fields ada ''ada@example.org'')"
    by (simp add: store_world_def)
  have n': "''ada99@example.org'' \<noteq> []" by simp
  have f': "findOne (store_world [ada_linked]) ''ada99@example.org'' = Inr None"
    by (simp add: store_world_def ada_linked_def ada_unlinked_def)
  note t = first_handshake_creates_one_user [OF resolve_email_ada n f]
  note t' = first_handshake_creates_one_user [OF resolve_email_ada99 n' f']
  show ?thesis
    using t c t' [THEN conjunct1] t' [THEN conjunct2, THEN conjunct1] by simp
qed

section \<open>Construction of the strategy\<close>

text \<open>
  Claim C3, as the code has it. The strategy object is constructed exactly when the
  \<^verbatim>\<open>config.oauth.github\<close> block is present and its \<open>clientID\<close> and \<open>clientSecret\<close> are
  both present and non-empty; otherwise \<open>githubStrategy\<close> stays \<^verbatim>\<open>null\<close>. The callback
  address is not consulted: a constructed strategy carries whatever \<open>callbackURL\<close> the
  block holds.
\<close>

theorem strategy_constructed_iff_id_and_secret:
  "(githubStrategy cfg \<noteq> None)
     = (\<exists>g. cfg = Some g \<and> truthy (clientID g) \<and> truthy (clientSecret g))
   \<and> (githubStrategy cfg = None
        \<or> (\<exists>g. cfg = Some g
              \<and> githubStrategy cfg
                  = Some (GitHubStrategy (clientID g) (clientSecret g) (callbackURL g))))"
  by (cases cfg) (auto simp: githubStrategy_def)

theorem strategy_constructed_iff_id_and_secret_witness:
  "githubStrategy (Some full_config) \<noteq> None
   \<and> githubStrategy (Some (full_config\<lparr>clientID := Some []\<rparr>)) = None
   \<and> githubStrategy (Some (full_config\<lparr>clientSecret := None\<rparr>)) = None
   \<and> githubStrategy None = None"
proof -
  have a: "githubStrategy (Some full_config) \<noteq> None"
    using strategy_constructed_iff_id_and_secret [of "Some full_config"]
    by (simp add: full_config_def truthy_def)
  have b: "githubStrategy (Some (full_config\<lparr>clientID := Some []\<rparr>)) = None"
    using strategy_constructed_iff_id_and_secret [of "Some (full_config\<lparr>clientID := Some []\<rparr>)"]
    by (simp add: full_config_def truthy_def)
  have c: "githubStrategy (Some (full_config\<lparr>clientSecret := None\<rparr>)) = None"
    using strategy_constructed_iff_id_and_secret [of "Some (full_config\<lparr>clientSecret := None\<rparr>)"]
    by (simp add: full_config_def truthy_def)
  have d: "githubStrategy None = None"
    using strategy_constructed_iff_id_and_secret [of None] by simp
  show ?thesis using a b c d by simp
qed

text \<open>
  Claim C3 as stated fails: with a client identifier and a client secret, the strategy
  is constructed although the callback address is absent, and although it is empty.
\<close>

theorem strategy_without_callback_counterexample:
  "githubStrategy (Some (full_config\<lparr>callbackURL := None\<rparr>)) \<noteq> None
   \<and> \<not> truthy (callbackURL (full_config\<lparr>callbackURL := None\<rparr>))
   \<and> githubStrategy (Some (full_config\<lparr>callbackURL := Some []\<rparr>)) \<noteq> None
   \<and> \<not> truthy (callbackURL (full_config\<lparr>callbackURL := Some []\<rparr>))"
  by (simp add: githubStrategy_def full_config_def truthy_def)

section \<open>Backfill of an unlinked document\<close>

text \<open>
  Claim C4. When the resolved email \<open>e\<close> finds a document \<open>u\<close> that lacks
  \<open>providerId\<close> (\<^verbatim>\<open>!user.providerId\<close>), the handler saves exactly once and creates
  nothing. The saved document has \<open>provider = 'github'\<close> and \<open>providerId = String(id)\<close>;
  its avatar differs from the old one only if the old one was absent
  (\<^verbatim>\<open>!user.avatar\<close>), and is then the profile's avatar; every other field, and whatever
  else the document holds, is as it was.
\<close>

theorem unlinked_user_is_backfilled_once:
  assumes "resolve_email p = Some e" and "e \<noteq> []"
      and "findOne w e = Inr (Some u)" and "\<not> truthy (providerId u)"
  shows "saves (fst (verify w p)) = [backfill p u]
       \<and> creates (fst (verify w p)) = []
       \<and> provider (backfill p u) = Some ''github''
       \<and> providerId (backfill p u) = Some (String_of (profile_id p))
       \<and> (truthy (avatar u) \<longrightarrow> avatar (backfill p u) = avatar u)
       \<and> (avatar (backfill p u) \<noteq> avatar u \<longrightarrow>
            \<not> truthy (avatar u) \<and> avatar (backfill p u) = avatar_of p)
       \<and> (\<not> truthy (avatar u) \<and> truthy (avatar_of p) \<longrightarrow>
            avatar (backfill p u) = avatar_of p)
       \<and> email (backfill p u) = email u
       \<and> name (backfill p u) = name u
       \<and> firstName (backfill p u) = firstName u
       \<and> lastName (backfill p u) = lastName u
       \<and> verified (backfill p u) = verified u
       \<and> status (backfill p u) = status u
       \<and> contact (backfill p u) = contact u
       \<and> location (backfill p u) = location u
       \<and> password (backfill p u) = password u
       \<and> user.more (backfill p u) = user.more u"
proof -
  have events: "saves (fst (verify w p)) = [backfill p u] \<and> creates (fst (verify w p)) = []"
  proof (cases "save w (backfill p u)")
    case None
    then show ?thesis
      using assms
      by (simp add: verify_events try_block_saved saves_simps creates_simps split: option.splits)
  next
    case (Some x)
    then show ?thesis
      using assms
      by (simp add: verify_events try_block_save_throws saves_simps creates_simps)
  qed
  show ?thesis
    using events backfill_provider [of p u] backfill_avatar_cases [of u p] backfill_frame [of p u]
    by blast
qed

theorem unlinked_user_is_backfilled_once_witness:
  "saves (fst (verify (store_world [ada_unlinked]) ada))
     = [ada_unlinked\<lparr>provider := Some ''github'', providerId := Some ''583231'',
                      avatar := Some ''https://img.example.org/ada.png''\<rparr>]
   \<and> creates (fst (verify (store_world [ada_unlinked]) ada)) = []
   \<and> password (backfill ada ada_unlinked) = Some ''hash''"
proof -
  have n: "''ada@example.org'' \<noteq> []" by simp
  have f: "findOne (store_world [ada_unlinked]) ''ada@example.org'' = Inr (Some ada_unlinked)"
    by (simp add: store_world_def ada_unlinked_def)
  have l: "\<not> truthy (providerId ada_unlinked)"
    by (simp add: truthy_def ada_unlinked_def)
  have b: "backfill ada ada_unlinked
           = ada_unlinked\<lparr>provider := Some ''github'', providerId := Some ''583231'',
                           avatar := Some ''https://img.example.org/ada.png''\<rparr>"
    by (simp add: backfill_def Let_def String_of_def avatar_of_def js_or_def first_value_def
        js_index0_def truthy_def ada_def ada_unlinked_def)
  note t = unlinked_user_is_backfilled_once [OF resolve_email_ada n f l]
  show ?thesis
    using t [THEN conjunct1] t [THEN conjunct2, THEN conjunct1] b
    by (simp add: ada_unlinked_def)
qed

section \<open>A linked document is left alone\<close>

text \<open>
  Claim C5. When the resolved email \<open>e\<close> finds a document \<open>u\<close> whose \<open>providerId\<close> is
  set, the handler looks the document up and invokes the continuation with
  \<^verbatim>\<open>done(null, u)\<close>, \<open>u\<close> being the document as it was found: nothing is created and
  nothing is saved. (The only event that can follow is the \<^verbatim>\<open>catch\<close> block's call of
  the continuation, when \<^verbatim>\<open>done(null, u)\<close> itself throws.)
\<close>

theorem linked_user_is_not_written:
  assumes "resolve_email p = Some e" and "e \<noteq> []"
      and "findOne w e = Inr (Some u)" and "truthy (providerId u)"
  shows "fst (verify w p)
           = [FindOne e, Done (Success u)]
             @ (case done_call w 0 (Success u) of None \<Rightarrow> [] | Some x \<Rightarrow> [Done (Failure x)])
       \<and> creates (fst (verify w p)) = []
       \<and> saves (fst (verify w p)) = []
       \<and> hd (dones (fst (verify w p))) = Success u"
  using assms
  by (simp add: verify_events try_block_linked creates_simps saves_simps
      dones_simps split: option.splits)

theorem linked_user_is_not_written_witness:
  "fst (verify (store_world [ada_linked]) ada)
     = [FindOne ''ada@example.org'', Done (Success ada_linked)]
   \<and> creates (fst (verify (store_world [ada_linked]) ada)) = []
   \<and> saves (fst (verify (store_world [ada_linked]) ada)) = []"
proof -
  have n: "''ada@example.org'' \<noteq> []" by simp
  have f: "findOne (store_world [ada_linked]) ''ada@example.org'' = Inr (Some ada_linked)"
    by (simp add: store_world_def ada_linked_def ada_unlinked_def)
  have l: "truthy (providerId ada_linked)"
    by (simp add: truthy_def ada_linked_def)
  have d: "done_call (store_world [ada_linked]) 0 (Success ada_linked) = None"
    by (simp add: store_world_def)
  show ?thesis
    using linked_user_is_not_written [OF resolve_email_ada n f l] d
    by (simp add: creates_simps saves_simps)
qed

section \<open>No email, no user\<close>

text \<open>
  Claim C6, as the code has it. For a profile whose \<open>emails\<close> array is absent or empty
  and which has no flat email field, the handler's first act is to invoke the
  continuation with the error \<^verbatim>\<open>new Error('No email provided by GitHub')\<close>; it makes
  no lookup, creates nothing and saves nothing. (The only event that can follow is the
  \<^verbatim>\<open>catch\<close> block's call of the continuation, when the first call itself throws.)
\<close>

theorem no_email_fails_without_persistence:
  assumes "emails p = None \<or> emails p = Some []" and "profile_email p = None"
  shows "fst (verify w p)
           = Done (Failure (Error ''No email provided by GitHub''))
             # (case done_call w 0 (Failure (Error ''No email provided by GitHub'')) of
                  None \<Rightarrow> []
                | Some x \<Rightarrow> [Done (Failure x)])
       \<and> lookups (fst (verify w p)) = []
       \<and> creates (fst (verify w p)) = []
       \<and> saves (fst (verify w p)) = []"
  using no_email_unresolved [OF assms]
  by (simp add: verify_events try_block_no_email creates_simps saves_simps lookups_simps
      split: option.splits)

theorem no_email_fails_without_persistence_witness:
  "fst (verify (store_world []) no_email_profile)
     = [Done (Failure (Error ''No email provided by GitHub''))]"
proof -
  have a: "emails no_email_profile = None \<or> emails no_email_profile = Some []"
    by (simp add: no_email_profile_def)
  have b: "profile_email no_email_profile = None"
    by (simp add: no_email_profile_def)
  have d: "done_call (store_world []) 0 (Failure (Error ''No email provided by GitHub'')) = None"
    by (simp add: store_world_def)
  show ?thesis
    using no_email_fails_without_persistence [OF a b, of "store_world []"] d by simp
qed

text \<open>
  Claim C6 as stated names the error "no email provided by provider"; the error the code
  passes has another message.
\<close>

theorem no_email_message_counterexample:
  "hd (dones (fst (verify (store_world []) no_email_profile)))
     = Failure (Error ''No email provided by GitHub'')
   \<and> hd (dones (fst (verify (store_world []) no_email_profile)))
     \<noteq> Failure (Error ''no email provided by provider'')"
  by (simp add: verify_def try_block_def Let_def resolve_email_def js_or_def first_value_def
      js_index0_def truthy_def no_email_profile_def store_world_def dones_def)

section \<open>Exceptions of the persistence layer\<close>




section \<open>The name fields of a created user\<close>

text \<open>
  Claim C9, as the code has it. On the creation path \<open>name\<close> is the display name when
  it is non-empty, else the \<open>login\<close> field when it is non-empty, else "User";
  \<open>firstName\<close> is what precedes the first space character of the display name, and
  "User" when the display name is absent or starts with a space or is empty;
  \<open>lastName\<close> is what follows the first space character of the display name, and empty
  when the display name is absent or has no space. The display name "Ada Lovelace" gives
  \<open>firstName\<close> "Ada" and \<open>lastName\<close> "Lovelace"; no display name and the login "ada99"
  give \<open>name\<close> "ada99" and \<open>firstName\<close> "User".
\<close>

theorem created_names_derivation:
  "name (create_fields p e) =
     (if truthy (displayName p) then the (displayName p)
      else if truthy (login p) then the (login p)
      else ''User'')
   \<and> firstName (create_fields p e) =
       (case displayName p of
          None \<Rightarrow> ''User''
        | Some s \<Rightarrow>
            if takeWhile (\<lambda>c. c \<noteq> CHR '' '') s = [] then ''User''
            else takeWhile (\<lambda>c. c \<noteq> CHR '' '') s)
   \<and> lastName (create_fields p e) =
       (case displayName p of
          None \<Rightarrow> []
        | Some s \<Rightarrow> drop 1 (dropWhile (\<lambda>c. c \<noteq> CHR '' '') s))
   \<and> (displayName p = Some ''Ada Lovelace'' \<longrightarrow>
        firstName (create_fields p e) = ''Ada'' \<and> lastName (create_fields p e) = ''Lovelace'')
   \<and> (displayName p = None \<and> login p = Some ''ada99'' \<longrightarrow>
        name (create_fields p e) = ''ada99'' \<and> firstName (create_fields p e) = ''User'')"
proof -
  have fields: "name (create_fields p e) = name_of p
      \<and> firstName (create_fields p e) = firstName_of (displayName p)
      \<and> lastName (create_fields p e) = lastName_of (displayName p)"
    by (simp add: create_fields_def)
  show ?thesis
    unfolding fields [THEN conjunct1] fields [THEN conjunct2, THEN conjunct1]
      fields [THEN conjunct2, THEN conjunct2]
    by (auto simp: name_of_eq firstName_of_eq lastName_of_eq truthy_def)
qed

theorem created_names_derivation_witness:
  "firstName (create_fields ada ''ada@example.org'') = ''Ada''
   \<and> lastName (create_fields ada ''ada@example.org'') = ''Lovelace''
   \<and> name (create_fields ada ''ada@example.org'') = ''Ada Lovelace''
   \<and> name (create_fields ada99 ''ada99@example.org'') = ''ada99''
   \<and> firstName (create_fields ada99 ''ada99@example.org'') = ''User''
   \<and> lastName (create_fields ada99 ''ada99@example.org'') = []"
proof -
  have a: "displayName ada = Some ''Ada Lovelace''"
    by (simp add: ada_def)
  have b: "displayName ada99 = None \<and> login ada99 = Some ''ada99''"
    by (simp add: ada99_def)
  show ?thesis
    using created_names_derivation [of ada "''ada@example.org''"]
      created_names_derivation [of ada99 "''ada99@example.org''"] a b
    by (simp add: truthy_def)
qed

text \<open>
  Claim C9 as stated fails in its general rule: the code splits on the space character
  only. For a display name whose two words are separated by a tab, the first
  whitespace-delimited token is "Ada" and the remaining one "Lovelace", while the code
  takes the whole display name as \<open>firstName\<close> and leaves \<open>lastName\<close> empty.
\<close>

theorem whitespace_token_counterexample:
  "firstName_of (Some tabbed_name) = tabbed_name
   \<and> spec_firstName (Some tabbed_name) = ''Ada''
   \<and> lastName_of (Some tabbed_name) = []
   \<and> spec_lastName (Some tabbed_name) = ''Lovelace''
   \<and> tabbed_name \<noteq> ''Ada''"
  by (simp add: firstName_of_def lastName_of_def js_or_lit_def js_index0_def js_slice1_def
      spec_firstName_def spec_lastName_def spec_tokens_def spec_is_whitespace_def
      tabbed_name_def)

section \<open>How often the continuation is invoked\<close>

lemma dones_verify:
  "dones (fst (verify w p)) =
     dones (fst (try_block w p)) @
     (case snd (try_block w p) of None \<Rightarrow> [] | Some x \<Rightarrow> [Failure x])"
  by (simp add: verify_events dones_simps split: option.splits)

lemma verify_first_call_throws:
  assumes "try_block w p = (evs, done_call w 0 a)" and "dones evs = [a]"
      and "done_call w 0 a = Some x"
  shows "dones (fst (verify w p)) = [a, Failure x]
       \<and> snd (verify w p) = done_call w 1 (Failure x)"
  using assms by (simp add: dones_verify verify_outcome)

text \<open>
  Claim C10, as the code has it. On every path the continuation is invoked at least
  once and at most twice. It is invoked exactly once, and the handler ends normally,
  whenever its first invocation returns. On each of the four paths whose first
  invocation is made inside the \<^verbatim>\<open>try\<close> block (no resolvable email, user created, user
  backfilled, user already linked), when that invocation throws \<open>x\<close> the \<^verbatim>\<open>catch\<close>
  block invokes the continuation a second time, in its failure form, with \<open>x\<close>, and
  the handler ends as that second call ends. On the paths where the lookup, the
  creation or the save throws, the only invocation is the one of the \<^verbatim>\<open>catch\<close> block.
  Two invocations happen in no other way.
\<close>

theorem continuation_invoked_once_or_twice:
  "1 \<le> length (dones (fst (verify w p)))
   \<and> length (dones (fst (verify w p))) \<le> 2
   \<and> (done_call w 0 (hd (dones (fst (verify w p)))) = None \<longrightarrow>
        length (dones (fst (verify w p))) = 1 \<and> snd (verify w p) = None)
   \<and> (length (dones (fst (verify w p))) = 2 \<longrightarrow>
        (\<exists>a x. dones (fst (verify w p)) = [a, Failure x] \<and> done_call w 0 a = Some x
               \<and> snd (verify w p) = done_call w 1 (Failure x)))
   \<and> (\<not> truthy (resolve_email p)
        \<and> done_call w 0 (Failure (Error ''No email provided by GitHub'')) = Some x \<longrightarrow>
        dones (fst (verify w p)) = [Failure (Error ''No email provided by GitHub''), Failure x]
        \<and> snd (verify w p) = done_call w 1 (Failure x))
   \<and> (resolve_email p = Some e \<and> e \<noteq> [] \<and> findOne w e = Inr None
        \<and> create w (create_fields p e) = Inr u
        \<and> done_call w 0 (Success u) = Some x \<longrightarrow>
        dones (fst (verify w p)) = [Success u, Failure x]
        \<and> snd (verify w p) = done_call w 1 (Failure x))
   \<and> (resolve_email p = Some e \<and> e \<noteq> [] \<and> findOne w e = Inr (Some u)
        \<and> \<not> truthy (providerId u) \<and> save w (backfill p u) = None
        \<and> done_call w 0 (Success (backfill p u)) = Some x \<longrightarrow>
        dones (fst (verify w p)) = [Success (backfill p u), Failure x]
        \<and> snd (verify w p) = done_call w 1 (Failure x))
   \<and> (resolve_email p = Some e \<and> e \<noteq> [] \<and> findOne w e = Inr (Some u)
        \<and> truthy (providerId u)
        \<and> done_call w 0 (Success u) = Some x \<longrightarrow>
        dones (fst (verify w p)) = [Success u, Failure x]
        \<and> snd (verify w p) = done_call w 1 (Failure x))
   \<and> (resolve_email p = Some e \<and> e \<noteq> []
        \<and> (findOne w e = Inl x
             \<or> (findOne w e = Inr None \<and> create w (create_fields p e) = Inl x)
             \<or> (findOne w e = Inr (Some u) \<and> \<not> truthy (providerId u)
                 \<and> save w (backfill p u) = Some x)) \<longrightarrow>
        dones (fst (verify w p)) = [Failure x]
        \<and> snd (verify w p) = done_call w 0 (Failure x))"
proof -
  have general: "1 \<le> length (dones (fst (verify w p)))
     \<and> length (dones (fst (verify w p))) \<le> 2
     \<and> (done_call w 0 (hd (dones (fst (verify w p)))) = None \<longrightarrow>
          length (dones (fst (verify w p))) = 1 \<and> snd (verify w p) = None)
     \<and> (length (dones (fst (verify w p))) = 2 \<longrightarrow>
          (\<exists>a x. dones (fst (verify w p)) = [a, Failure x] \<and> done_call w 0 a = Some x
                 \<and> snd (verify w p) = done_call w 1 (Failure x)))"
    by (auto simp: verify_def try_block_def Let_def dones_def split: sum.splits option.splits)
  have no_email: "\<not> truthy (resolve_email p)
        \<and> done_call w 0 (Failure (Error ''No email provided by GitHub'')) = Some x \<longrightarrow>
        dones (fst (verify w p)) = [Failure (Error ''No email provided by GitHub''), Failure x]
        \<and> snd (verify w p) = done_call w 1 (Failure x)"
    using verify_first_call_throws [OF try_block_no_email, of p w x]
    by (simp add: dones_simps)
  have created: "resolve_email p = Some e \<and> e \<noteq> [] \<and> findOne w e = Inr None
        \<and> create w (create_fields p e) = Inr u
        \<and> done_call w 0 (Success u) = Some x \<longrightarrow>
        dones (fst (verify w p)) = [Success u, Failure x]
        \<and> snd (verify w p) = done_call w 1 (Failure x)"
    using verify_first_call_throws [OF try_block_created, of p e w u x]
    by (simp add: dones_simps)
  have backfilled: "resolve_email p = Some e \<and> e \<noteq> [] \<and> findOne w e = Inr (Some u)
        \<and> \<not> truthy (providerId u) \<and> save w (backfill p u) = None
        \<and> done_call w 0 (Success (backfill p u)) = Some x \<longrightarrow>
        dones (fst (verify w p)) = [Success (backfill p u), Failure x]
        \<and> snd (verify w p) = done_call w 1 (Failure x)"
    using verify_first_call_throws [OF try_block_saved, of p e w u x]
    by (simp add: dones_simps)
  have linked: "resolve_email p = Some e \<and> e \<noteq> [] \<and> findOne w e = Inr (Some u)
        \<and> truthy (providerId u)
        \<and> done_call w 0 (Success u) = Some x \<longrightarrow>
        dones (fst (verify w p)) = [Success u, Failure x]
        \<and> snd (verify w p) = done_call w 1 (Failure x)"
    using verify_first_call_throws [OF try_block_linked, of p e w u x]
    by (simp add: dones_simps)
  have caught: "resolve_email p = Some e \<and> e \<noteq> []
        \<and> (findOne w e = Inl x
             \<or> (findOne w e = Inr None \<and> create w (create_fields p e) = Inl x)
             \<or> (findOne w e = Inr (Some u) \<and> \<not> truthy (providerId u)
                 \<and> save w (backfill p u) = Some x)) \<longrightarrow>
        dones (fst (verify w p)) = [Failure x]
        \<and> snd (verify w p) = done_call w 0 (Failure x)"
    using try_block_lookup_throws [of p e w x] try_block_create_throws [of p e w x]
      try_block_save_throws [of p e w u x]
    by (auto simp: dones_verify verify_outcome dones_simps)
  show ?thesis
    using general no_email created backfilled linked caught by blast
qed

theorem continuation_invoked_once_or_twice_witness:
  "length (dones (fst (verify (store_world []) ada))) = 1
   \<and> snd (verify (store_world []) ada) = None
   \<and> dones (fst (verify throwing_world ada))
       = [Success ada_linked, Failure (Error ''req.session.regenerate is not a function'')]
   \<and> snd (verify throwing_world ada) = None"
proof -
  note t = continuation_invoked_once_or_twice
    [of "store_world []" ada "Error ''x''" "''ada@example.org''" ada_linked]
  have d: "done_call (store_world []) 0 (hd (dones (fst (verify (store_world []) ada)))) = None"
    by (simp add: store_world_def)
  have once: "length (dones (fst (verify (store_world []) ada))) = 1
              \<and> snd (verify (store_world []) ada) = None"
    using t [THEN conjunct2, THEN conjunct2, THEN conjunct1] d by blast
  note t' = continuation_invoked_once_or_twice
    [of throwing_world ada "Error ''req.session.regenerate is not a function''"
        "''ada@example.org''" ada_linked]
  have h: "resolve_email ada = Some ''ada@example.org'' \<and> ''ada@example.org'' \<noteq> []
      \<and> findOne throwing_world ''ada@example.org'' = Inr (Some ada_linked)
      \<and> truthy (providerId ada_linked)
      \<and> done_call throwing_world 0 (Success ada_linked)
          = Some (Error ''req.session.regenerate is not a function'')"
    by (simp add: resolve_email_ada throwing_world_def store_world_def ada_linked_def
        ada_unlinked_def truthy_def)
  have k: "done_call throwing_world 1 (Failure (Error ''req.session.regenerate is not a function''))
           = None"
    by (simp add: throwing_world_def)
  have twice: "dones (fst (verify throwing_world ada))
       = [Success ada_linked, Failure (Error ''req.session.regenerate is not a function'')]
     \<and> snd (verify throwing_world ada) = None"
    using t' [THEN conjunct2, THEN conjunct2, THEN conjunct2, THEN conjunct2, THEN conjunct2,
              THEN conjunct2, THEN conjunct2, THEN conjunct1] h k
    by simp
  show ?thesis using once twice by blast
qed

text \<open>
  Claim C10 as stated fails: for a linked user and a continuation whose success path
  throws, the continuation is invoked twice, first with the user and then with the
  exception.
\<close>

theorem throwing_continuation_counterexample:
  "dones (fst (verify throwing_world ada))
     = [Success ada_linked, Failure (Error ''req.session.regenerate is not a function'')]
   \<and> length (dones (fst (verify throwing_world ada))) = 2"
  by (simp add: verify_throwing_world dones_simps)

end
